theory Spec2Isabelle
  imports Complex_Main "HOL-Library.Word"
begin

section \<open>Basic types\<close>

text \<open>
  A Go string is a \<open>string\<close>. A \<open>time.Time\<close> is used by the domain code only through
  \<open>Before\<close> and \<open>After\<close>, which compare instants: an instant is an integer (nanoseconds
  on the time line). A pointer that may be nil is an \<open>option\<close>, \<open>None\<close> being nil.
  A \<open>*big.Rat\<close> is an exact rational, \<open>rat\<close>; an \<open>int64\<close> is a 64-bit word read by
  \<open>sint\<close>.
\<close>

type_synonym time = int
type_synonym int64 = "64 word"

definition Before :: "time \<Rightarrow> time \<Rightarrow> bool" where
  "Before t u = (t < u)"

definition After :: "time \<Rightarrow> time \<Rightarrow> bool" where
  "After t u = (u < t)"

text \<open>\<open>errors.go\<close>: the sentinel errors of the domain.\<close>

datatype error =
    ErrProductNotFound
  | ErrProductNotActive
  | ErrProductArchived
  | ErrProductAlreadyActive
  | ErrProductAlreadyInactive
  | ErrInvalidProductName
  | ErrInvalidProductCategory
  | ErrInvalidBasePrice
  | ErrInvalidDiscountPercentage
  | ErrInvalidDiscountPeriod
  | ErrDiscountNotActive
  | ErrDiscountAlreadyExists
  | ErrNoDiscountToRemove
  | ErrInvalidID

section \<open>math/big rationals as the code uses them\<close>

text \<open>
  \<open>big.NewRat(a, b)\<close> panics with a division by zero when \<open>b = 0\<close>; otherwise it is the
  rational \<open>a/b\<close>, kept in lowest terms. \<open>Cmp\<close> is the three-way comparison and \<open>Sign\<close>
  the sign.
\<close>

datatype panic = DivisionByZero

definition NewRat :: "int64 \<Rightarrow> int64 \<Rightarrow> panic + rat" where
  "NewRat a b = (if b = 0 then Inl DivisionByZero else Inr (Fract (sint a) (sint b)))"

definition Cmp :: "rat \<Rightarrow> rat \<Rightarrow> int" where
  "Cmp x y = (if x < y then - 1 else if x = y then 0 else 1)"

definition Sign :: "rat \<Rightarrow> int" where
  "Sign x = (if x < 0 then - 1 else if x = 0 then 0 else 1)"

section \<open>Money (\<open>money.go\<close>)\<close>

record Money =
  amount :: "rat option"

definition NewMoney :: "int64 \<Rightarrow> int64 \<Rightarrow> panic + Money" where
  "NewMoney numerator denominator =
     (let denominator = (if denominator = 0 then 1 else denominator) in
      case NewRat numerator denominator of
        Inl e \<Rightarrow> Inl e
      | Inr r \<Rightarrow> Inr \<lparr>amount = Some r\<rparr>)"

definition Amount :: "Money option \<Rightarrow> rat" where
  "Amount m =
     (case m of None \<Rightarrow> Fract 0 1
      | Some mm \<Rightarrow> (case amount mm of None \<Rightarrow> Fract 0 1 | Some r \<Rightarrow> r))"

definition IsPositive :: "Money option \<Rightarrow> bool" where
  "IsPositive m =
     (case m of None \<Rightarrow> False
      | Some mm \<Rightarrow> (case amount mm of None \<Rightarrow> False | Some r \<Rightarrow> Sign r > 0))"

definition Equals :: "Money option \<Rightarrow> Money option \<Rightarrow> bool" where
  "Equals m other =
     (if m = None \<and> other = None then True
      else if m = None \<or> other = None then False
      else Cmp (Amount m) (Amount other) = 0)"

section \<open>Discount (\<open>discount.go\<close>)\<close>

record Discount =
  percentage :: "rat option"
  startDate :: time
  endDate :: time

definition NewDiscount :: "rat option \<Rightarrow> time \<Rightarrow> time \<Rightarrow> error + Discount" where
  "NewDiscount pct start end =
     (case pct of None \<Rightarrow> Inl ErrInvalidDiscountPercentage
      | Some p \<Rightarrow>
          let zero = Fract 0 1; hundred = Fract 100 1 in
          if Cmp p zero \<le> 0 then Inl ErrInvalidDiscountPercentage
          else if Cmp p hundred > 0 then Inl ErrInvalidDiscountPercentage
          else if \<not> After end start then Inl ErrInvalidDiscountPeriod
          else Inr \<lparr>percentage = Some p, startDate = start, endDate = end\<rparr>)"

definition Percentage :: "Discount option \<Rightarrow> rat" where
  "Percentage d =
     (case d of None \<Rightarrow> Fract 0 1
      | Some dd \<Rightarrow> (case percentage dd of None \<Rightarrow> Fract 0 1 | Some r \<Rightarrow> r))"

text \<open>On a nil discount the date getters return the zero \<open>time.Time\<close>, the instant 0 here.\<close>

definition StartDate :: "Discount option \<Rightarrow> time" where
  "StartDate d = (case d of None \<Rightarrow> 0 | Some dd \<Rightarrow> startDate dd)"

definition EndDate :: "Discount option \<Rightarrow> time" where
  "EndDate d = (case d of None \<Rightarrow> 0 | Some dd \<Rightarrow> endDate dd)"

definition IsValidAt :: "Discount option \<Rightarrow> time \<Rightarrow> bool" where
  "IsValidAt d t =
     (case d of None \<Rightarrow> False
      | Some dd \<Rightarrow> \<not> Before t (startDate dd) \<and> Before t (endDate dd))"

definition IsActive :: "Discount option \<Rightarrow> time \<Rightarrow> bool" where
  "IsActive d t = IsValidAt d t"

definition IsExpired :: "Discount option \<Rightarrow> time \<Rightarrow> bool" where
  "IsExpired d t =
     (case d of None \<Rightarrow> True
      | Some dd \<Rightarrow> \<not> Before t (endDate dd))"

section \<open>Write plan (\<open>committer/plan.go\<close>)\<close>

text \<open>
  A plan holds a slice of mutation pointers; the mutation itself is opaque (\<open>'m\<close>), and a
  nil pointer is \<open>None\<close>. Each method takes the plan and returns the plan it leaves.
\<close>

record 'm Plan =
  mutations :: "'m option list"

definition NewPlan :: "'m Plan" where
  "NewPlan = \<lparr>mutations = []\<rparr>"

definition Add :: "'m option \<Rightarrow> 'm Plan \<Rightarrow> 'm Plan" where
  "Add mut p = (if mut \<noteq> None then p\<lparr>mutations := mutations p @ [mut]\<rparr> else p)"

fun AddAll :: "'m option list \<Rightarrow> 'm Plan \<Rightarrow> 'm Plan" where
  "AddAll [] p = p"
| "AddAll (mut # muts) p = AddAll muts (Add mut p)"

definition Mutations :: "'m Plan \<Rightarrow> 'm option list" where
  "Mutations p = mutations p"

definition IsEmpty :: "'m Plan \<Rightarrow> bool" where
  "IsEmpty p = (length (mutations p) = 0)"

definition Count :: "'m Plan \<Rightarrow> nat" where
  "Count p = length (mutations p)"

definition Clear :: "'m Plan \<Rightarrow> 'm Plan" where
  "Clear p = p\<lparr>mutations := []\<rparr>"

text \<open>A sequence of calls on one plan, in the order they are made.\<close>

datatype 'm plan_call = CallAdd "'m option" | CallAddAll "'m option list" | CallClear

fun apply_call :: "'m plan_call \<Rightarrow> 'm Plan \<Rightarrow> 'm Plan" where
  "apply_call (CallAdd mut) p = Add mut p"
| "apply_call (CallAddAll muts) p = AddAll muts p"
| "apply_call CallClear p = Clear p"

fun apply_calls :: "'m plan_call list \<Rightarrow> 'm Plan \<Rightarrow> 'm Plan" where
  "apply_calls [] p = p"
| "apply_calls (c # cs) p = apply_calls cs (apply_call c p)"

text \<open>
  The count the specification describes: the number of non-nil mutations handed to \<open>Add\<close>
  and \<open>AddAll\<close> since the plan was built or last cleared, \<open>n\<close> being the number so far.
\<close>

fun non_nil_added :: "'m plan_call list \<Rightarrow> nat \<Rightarrow> nat" where
  "non_nil_added [] n = n"
| "non_nil_added (CallAdd mut # cs) n = non_nil_added cs (if mut = None then n else n + 1)"
| "non_nil_added (CallAddAll muts # cs) n =
     non_nil_added cs (n + length (filter (\<lambda>mut. mut \<noteq> None) muts))"
| "non_nil_added (CallClear # cs) n = non_nil_added cs 0"

section \<open>Product status (\<open>product_status.go\<close>)\<close>

text \<open>
  \<open>ProductStatus\<close> is a string type in the source, and \<open>ReconstructProduct\<close> takes whatever
  string the row holds: the model keeps it a string.
\<close>

type_synonym ProductStatus = string

definition ProductStatusDraft :: ProductStatus where
  "ProductStatusDraft = ''draft''"

definition ProductStatusActive :: ProductStatus where
  "ProductStatusActive = ''active''"

definition ProductStatusInactive :: ProductStatus where
  "ProductStatusInactive = ''inactive''"

definition ProductStatusArchived :: ProductStatus where
  "ProductStatusArchived = ''archived''"

definition CanActivate :: "ProductStatus \<Rightarrow> bool" where
  "CanActivate s = (s = ProductStatusDraft \<or> s = ProductStatusInactive)"

definition CanDeactivate :: "ProductStatus \<Rightarrow> bool" where
  "CanDeactivate s = (s = ProductStatusActive)"

section \<open>Change tracker (\<open>change_tracker.go\<close>)\<close>

definition FieldName :: string where
  "FieldName = ''name''"

definition FieldDescription :: string where
  "FieldDescription = ''description''"

definition FieldCategory :: string where
  "FieldCategory = ''category''"

definition FieldBasePrice :: string where
  "FieldBasePrice = ''base_price''"

definition FieldDiscount :: string where
  "FieldDiscount = ''discount''"

definition FieldStatus :: string where
  "FieldStatus = ''status''"

text \<open>
  The tracker is reached through a pointer that may be nil, and its map may be nil as
  well. A Go map read at a missing key gives \<open>false\<close>.
\<close>

record ChangeTracker =
  dirtyFields :: "(string \<rightharpoonup> bool) option"

definition NewChangeTracker :: ChangeTracker where
  "NewChangeTracker = \<lparr>dirtyFields = Some Map.empty\<rparr>"

definition MarkDirty :: "string \<Rightarrow> ChangeTracker option \<Rightarrow> ChangeTracker option" where
  "MarkDirty field ct =
     (case ct of None \<Rightarrow> None
      | Some c \<Rightarrow>
          let c = (if dirtyFields c = None then c\<lparr>dirtyFields := Some Map.empty\<rparr> else c) in
          Some (c\<lparr>dirtyFields := map_option (\<lambda>m. m(field \<mapsto> True)) (dirtyFields c)\<rparr>))"

definition Dirty :: "ChangeTracker option \<Rightarrow> string \<Rightarrow> bool" where
  "Dirty ct field =
     (case ct of None \<Rightarrow> False
      | Some c \<Rightarrow>
          (case dirtyFields c of None \<Rightarrow> False
           | Some m \<Rightarrow> (case m field of None \<Rightarrow> False | Some b \<Rightarrow> b)))"

fun MarkAllDirty :: "string list \<Rightarrow> ChangeTracker option \<Rightarrow> ChangeTracker option" where
  "MarkAllDirty [] ct = ct"
| "MarkAllDirty (field # rest) ct = MarkAllDirty rest (MarkDirty field ct)"

section \<open>Domain events (\<open>events.go\<close>)\<close>

record BaseEvent =
  aggregateID :: string
  occurredAt :: time

datatype DomainEvent =
    ProductCreatedEvent BaseEvent string string string "Money option"
  | ProductUpdatedEvent BaseEvent string string string
  | ProductActivatedEvent BaseEvent
  | ProductDeactivatedEvent BaseEvent
  | ProductArchivedEvent BaseEvent
  | DiscountAppliedEvent BaseEvent "rat option" time time
  | DiscountRemovedEvent BaseEvent

fun EventType :: "DomainEvent \<Rightarrow> string" where
  "EventType (ProductCreatedEvent _ _ _ _ _) = ''product.created''"
| "EventType (ProductUpdatedEvent _ _ _ _) = ''product.updated''"
| "EventType (ProductActivatedEvent _) = ''product.activated''"
| "EventType (ProductDeactivatedEvent _) = ''product.deactivated''"
| "EventType (ProductArchivedEvent _) = ''product.archived''"
| "EventType (DiscountAppliedEvent _ _ _ _) = ''product.discount_applied''"
| "EventType (DiscountRemovedEvent _) = ''product.discount_removed''"

definition NewProductCreatedEvent ::
  "string \<Rightarrow> string \<Rightarrow> string \<Rightarrow> string \<Rightarrow> Money option \<Rightarrow> time \<Rightarrow> DomainEvent" where
  "NewProductCreatedEvent productID nm descr cat price occurred =
     ProductCreatedEvent \<lparr>aggregateID = productID, occurredAt = occurred\<rparr> nm descr cat price"

definition NewProductUpdatedEvent ::
  "string \<Rightarrow> string \<Rightarrow> string \<Rightarrow> string \<Rightarrow> time \<Rightarrow> DomainEvent" where
  "NewProductUpdatedEvent productID nm descr cat occurred =
     ProductUpdatedEvent \<lparr>aggregateID = productID, occurredAt = occurred\<rparr> nm descr cat"

definition NewProductActivatedEvent :: "string \<Rightarrow> time \<Rightarrow> DomainEvent" where
  "NewProductActivatedEvent productID occurred =
     ProductActivatedEvent \<lparr>aggregateID = productID, occurredAt = occurred\<rparr>"

definition NewProductDeactivatedEvent :: "string \<Rightarrow> time \<Rightarrow> DomainEvent" where
  "NewProductDeactivatedEvent productID occurred =
     ProductDeactivatedEvent \<lparr>aggregateID = productID, occurredAt = occurred\<rparr>"

definition NewProductArchivedEvent :: "string \<Rightarrow> time \<Rightarrow> DomainEvent" where
  "NewProductArchivedEvent productID occurred =
     ProductArchivedEvent \<lparr>aggregateID = productID, occurredAt = occurred\<rparr>"

definition NewDiscountAppliedEvent ::
  "string \<Rightarrow> rat option \<Rightarrow> time \<Rightarrow> time \<Rightarrow> time \<Rightarrow> DomainEvent" where
  "NewDiscountAppliedEvent productID pct start end occurred =
     DiscountAppliedEvent \<lparr>aggregateID = productID, occurredAt = occurred\<rparr> pct start end"

definition NewDiscountRemovedEvent :: "string \<Rightarrow> time \<Rightarrow> DomainEvent" where
  "NewDiscountRemovedEvent productID occurred =
     DiscountRemovedEvent \<lparr>aggregateID = productID, occurredAt = occurred\<rparr>"

section \<open>\<open>strings.TrimSpace\<close>\<close>

text \<open>
  A Go string is a sequence of bytes holding UTF-8. \<open>strings.TrimSpace\<close> removes the
  leading and the trailing white space, as \<open>unicode.IsSpace\<close> defines it: the code points
  U+0009 to U+000D, U+0020, U+0085, U+00A0, U+1680, U+2000 to U+200A, U+2028, U+2029,
  U+202F, U+205F and U+3000. \<open>spaceRunes\<close> lists their UTF-8 encodings; no encoding is
  a prefix or a suffix of another one.
\<close>

definition spaceRunes :: "nat list list" where
  "spaceRunes =
     [[0x09], [0x0A], [0x0B], [0x0C], [0x0D], [0x20], [0xC2, 0x85], [0xC2, 0xA0],
      [0xE1, 0x9A, 0x80]]
     @ map (\<lambda>b. [0xE2, 0x80, b]) [0x80, 0x81, 0x82, 0x83, 0x84, 0x85, 0x86, 0x87, 0x88,
         0x89, 0x8A, 0xA8, 0xA9, 0xAF]
     @ [[0xE2, 0x81, 0x9F], [0xE3, 0x80, 0x80]]"

definition leadingSpace :: "string \<Rightarrow> nat" where
  "leadingSpace s =
     (case filter (\<lambda>r. take (length r) (map of_char s) = r) spaceRunes of
        [] \<Rightarrow> 0 | r # _ \<Rightarrow> length r)"

definition trailingSpace :: "string \<Rightarrow> nat" where
  "trailingSpace s =
     (case filter (\<lambda>r. take (length r) (rev (map of_char s)) = rev r) spaceRunes of
        [] \<Rightarrow> 0 | r # _ \<Rightarrow> length r)"

text \<open>
  The two loops of the trimming, each bounded by the length of the string: a round
  removes one white-space code point, of one byte at least.
\<close>

fun trimLeft :: "nat \<Rightarrow> string \<Rightarrow> string" where
  "trimLeft 0 s = s"
| "trimLeft (Suc k) s =
     (if leadingSpace s = 0 then s else trimLeft k (drop (leadingSpace s) s))"

fun trimRight :: "nat \<Rightarrow> string \<Rightarrow> string" where
  "trimRight 0 s = s"
| "trimRight (Suc k) s =
     (if trailingSpace s = 0 then s
      else trimRight k (take (length s - trailingSpace s) s))"

definition TrimSpace :: "string \<Rightarrow> string" where
  "TrimSpace s = (let t = trimLeft (length s) s in trimRight (length t) t)"

section \<open>Product aggregate (\<open>product.go\<close>)\<close>

record Product =
  id' :: string
  name :: string
  description :: string
  category :: string
  basePrice :: "Money option"
  discount :: "Discount option"
  status :: ProductStatus
  createdAt :: time
  updatedAt :: time
  archivedAt :: "time option"
  changes :: "ChangeTracker option"
  events :: "DomainEvent list"

definition NewProduct ::
  "string \<Rightarrow> string \<Rightarrow> string \<Rightarrow> string \<Rightarrow> Money option \<Rightarrow> time \<Rightarrow> error + Product" where
  "NewProduct ident nm descr cat price now =
     (if TrimSpace ident = [] then Inl ErrInvalidID
      else if TrimSpace nm = [] then Inl ErrInvalidProductName
      else if TrimSpace cat = [] then Inl ErrInvalidProductCategory
      else if price = None \<or> \<not> IsPositive price then Inl ErrInvalidBasePrice
      else
        let p = \<lparr>id' = ident,
                 name = TrimSpace nm,
                 description = TrimSpace descr,
                 category = TrimSpace cat,
                 basePrice = price,
                 discount = None,
                 status = ProductStatusDraft,
                 createdAt = now,
                 updatedAt = now,
                 archivedAt = None,
                 changes = Some NewChangeTracker,
                 events = []\<rparr>;
            p = p\<lparr>changes := MarkAllDirty
                  [FieldName, FieldDescription, FieldCategory, FieldBasePrice, FieldStatus]
                  (changes p)\<rparr>;
            p = p\<lparr>events := events p @
                  [NewProductCreatedEvent ident (name p) (description p) (category p)
                     (basePrice p) now]\<rparr>
        in Inr p)"

definition ReconstructProduct ::
  "string \<Rightarrow> string \<Rightarrow> string \<Rightarrow> string \<Rightarrow> Money option \<Rightarrow> Discount option
    \<Rightarrow> ProductStatus \<Rightarrow> time \<Rightarrow> time \<Rightarrow> time option \<Rightarrow> Product" where
  "ReconstructProduct ident nm descr cat price disc st created updated archived =
     \<lparr>id' = ident, name = nm, description = descr, category = cat, basePrice = price,
      discount = disc, status = st, createdAt = created, updatedAt = updated,
      archivedAt = archived, changes = Some NewChangeTracker, events = []\<rparr>"

definition ClearEvents :: "Product \<Rightarrow> Product" where
  "ClearEvents p = p\<lparr>events := []\<rparr>"

text \<open>
  A business method changes the product it is called on and returns an error or nil:
  the model returns the error (\<open>None\<close> is nil) with the product as the call leaves it,
  following the statements of the source in their order.
\<close>

definition Update ::
  "string \<Rightarrow> string \<Rightarrow> string \<Rightarrow> time \<Rightarrow> Product \<Rightarrow> error option \<times> Product" where
  "Update nm descr cat now p =
     (if status p = ProductStatusArchived then (Some ErrProductArchived, p)
      else if TrimSpace nm = [] then (Some ErrInvalidProductName, p)
      else if TrimSpace cat = [] then (Some ErrInvalidProductCategory, p)
      else
        let hasChanges = False;
            newName = TrimSpace nm;
            (p, hasChanges) =
              (if name p \<noteq> newName
               then (p\<lparr>name := newName, changes := MarkDirty FieldName (changes p)\<rparr>, True)
               else (p, hasChanges));
            newDescription = TrimSpace descr;
            (p, hasChanges) =
              (if description p \<noteq> newDescription
               then (p\<lparr>description := newDescription,
                       changes := MarkDirty FieldDescription (changes p)\<rparr>, True)
               else (p, hasChanges));
            newCategory = TrimSpace cat;
            (p, hasChanges) =
              (if category p \<noteq> newCategory
               then (p\<lparr>category := newCategory,
                       changes := MarkDirty FieldCategory (changes p)\<rparr>, True)
               else (p, hasChanges));
            p = (if hasChanges
                 then p\<lparr>updatedAt := now,
                        events := events p @
                          [NewProductUpdatedEvent (id' p) (name p) (description p)
                             (category p) now]\<rparr>
                 else p)
        in (None, p))"

definition Activate :: "time \<Rightarrow> Product \<Rightarrow> error option \<times> Product" where
  "Activate now p =
     (if status p = ProductStatusArchived then (Some ErrProductArchived, p)
      else if status p = ProductStatusActive then (Some ErrProductAlreadyActive, p)
      else if \<not> CanActivate (status p) then (Some ErrProductNotActive, p)
      else
        let p = p\<lparr>status := ProductStatusActive\<rparr>;
            p = p\<lparr>updatedAt := now\<rparr>;
            p = p\<lparr>changes := MarkDirty FieldStatus (changes p)\<rparr>;
            p = p\<lparr>events := events p @ [NewProductActivatedEvent (id' p) now]\<rparr>
        in (None, p))"

definition Deactivate :: "time \<Rightarrow> Product \<Rightarrow> error option \<times> Product" where
  "Deactivate now p =
     (if status p = ProductStatusArchived then (Some ErrProductArchived, p)
      else if status p = ProductStatusInactive then (Some ErrProductAlreadyInactive, p)
      else if \<not> CanDeactivate (status p) then (Some ErrProductNotActive, p)
      else
        let p = p\<lparr>status := ProductStatusInactive\<rparr>;
            p = p\<lparr>updatedAt := now\<rparr>;
            p = p\<lparr>changes := MarkDirty FieldStatus (changes p)\<rparr>;
            p = p\<lparr>events := events p @ [NewProductDeactivatedEvent (id' p) now]\<rparr>
        in (None, p))"

definition Archive :: "time \<Rightarrow> Product \<Rightarrow> error option \<times> Product" where
  "Archive now p =
     (if status p = ProductStatusArchived then (Some ErrProductArchived, p)
      else
        let p = p\<lparr>status := ProductStatusArchived\<rparr>;
            p = p\<lparr>archivedAt := Some now\<rparr>;
            p = p\<lparr>updatedAt := now\<rparr>;
            p = p\<lparr>changes := MarkDirty FieldStatus (changes p)\<rparr>;
            p = p\<lparr>events := events p @ [NewProductArchivedEvent (id' p) now]\<rparr>
        in (None, p))"

definition ApplyDiscount :: "Discount option \<Rightarrow> time \<Rightarrow> Product \<Rightarrow> error option \<times> Product" where
  "ApplyDiscount d now p =
     (if status p \<noteq> ProductStatusActive then (Some ErrProductNotActive, p)
      else if status p = ProductStatusArchived then (Some ErrProductArchived, p)
      else if d = None then (Some ErrInvalidDiscountPercentage, p)
      else if IsExpired d now then (Some ErrInvalidDiscountPeriod, p)
      else
        let p = p\<lparr>discount := d\<rparr>;
            p = p\<lparr>updatedAt := now\<rparr>;
            p = p\<lparr>changes := MarkDirty FieldDiscount (changes p)\<rparr>;
            p = p\<lparr>events := events p @
                  [NewDiscountAppliedEvent (id' p) (Some (Percentage d)) (StartDate d)
                     (EndDate d) now]\<rparr>
        in (None, p))"

definition RemoveDiscount :: "time \<Rightarrow> Product \<Rightarrow> error option \<times> Product" where
  "RemoveDiscount now p =
     (if status p = ProductStatusArchived then (Some ErrProductArchived, p)
      else if discount p = None then (Some ErrNoDiscountToRemove, p)
      else
        let p = p\<lparr>discount := None\<rparr>;
            p = p\<lparr>updatedAt := now\<rparr>;
            p = p\<lparr>changes := MarkDirty FieldDiscount (changes p)\<rparr>;
            p = p\<lparr>events := events p @ [NewDiscountRemovedEvent (id' p) now]\<rparr>
        in (None, p))"

text \<open>
  The six mutating methods as calls, and a caller that makes a sequence of them on one
  product whatever each returns, collecting the returned errors.
\<close>

datatype product_call =
    CallUpdate string string string time
  | CallActivate time
  | CallDeactivate time
  | CallArchive time
  | CallApplyDiscount "Discount option" time
  | CallRemoveDiscount time

fun invoke :: "product_call \<Rightarrow> Product \<Rightarrow> error option \<times> Product" where
  "invoke (CallUpdate nm descr cat now) p = Update nm descr cat now p"
| "invoke (CallActivate now) p = Activate now p"
| "invoke (CallDeactivate now) p = Deactivate now p"
| "invoke (CallArchive now) p = Archive now p"
| "invoke (CallApplyDiscount d now) p = ApplyDiscount d now p"
| "invoke (CallRemoveDiscount now) p = RemoveDiscount now p"

fun invoke_all :: "product_call list \<Rightarrow> Product \<Rightarrow> error option list \<times> Product" where
  "invoke_all [] p = ([], p)"
| "invoke_all (c # cs) p =
     (case invoke c p of (e, p') \<Rightarrow>
        (case invoke_all cs p' of (es, p'') \<Rightarrow> (e # es, p'')))"

text \<open>
  What a caller can do to an aggregate it holds: call a mutating method, whatever it
  returns, or clear the pending events.
\<close>

datatype action = Business product_call | EventsCleared

fun perform :: "action \<Rightarrow> Product \<Rightarrow> Product" where
  "perform (Business c) p = snd (invoke c p)"
| "perform EventsCleared p = ClearEvents p"

fun perform_all :: "action list \<Rightarrow> Product \<Rightarrow> Product" where
  "perform_all [] p = p"
| "perform_all (a # as) p = perform_all as (perform a p)"

text \<open>
  The data model's invariant on the texts of a product: name and category are not empty
  (\<open>NewProduct\<close> and \<open>Update\<close> store trimmed texts, and refuse the ones that trim to nothing).
\<close>

definition named :: "Product \<Rightarrow> bool" where
  "named p = (name p \<noteq> [] \<and> category p \<noteq> [])"

text \<open>The archive time is set exactly on the archived products.\<close>

definition archived_iff :: "Product \<Rightarrow> bool" where
  "archived_iff p = (archivedAt p \<noteq> None \<longleftrightarrow> status p = ProductStatusArchived)"

section \<open>Example values\<close>

text \<open>
  A price of 19.99, a widget as \<open>NewProduct\<close> returns it at time 1, the same widget as a
  repository loads it, and as it loads it once archived at time 2.
\<close>

definition price_1999 :: "Money option" where
  "price_1999 = Some \<lparr>amount = Some (Fract 1999 100)\<rparr>"

definition new_widget :: Product where
  "new_widget =
     \<lparr>id' = ''p1'', name = ''Widget'', description = ''A widget'', category = ''X'',
      basePrice = price_1999, discount = None, status = ProductStatusDraft,
      createdAt = 1, updatedAt = 1, archivedAt = None,
      changes = MarkAllDirty
        [FieldName, FieldDescription, FieldCategory, FieldBasePrice, FieldStatus]
        (Some NewChangeTracker),
      events = [NewProductCreatedEvent ''p1'' ''Widget'' ''A widget'' ''X'' price_1999 1]\<rparr>"

definition stored_widget :: Product where
  "stored_widget =
     ReconstructProduct ''p1'' ''Widget'' ''A widget'' ''X'' price_1999 None
       ProductStatusDraft 1 1 None"

definition archived_widget :: Product where
  "archived_widget =
     ReconstructProduct ''p1'' ''Widget'' ''A widget'' ''X'' price_1999 None
       ProductStatusArchived 1 2 (Some 2)"


definition summer_sale :: "Discount option" where
  "summer_sale = Some \<lparr>percentage = Some 20, startDate = 0, endDate = 100\<rparr>"

section \<open>The trimming loops end within their bound\<close>

text \<open>
  With as many rounds as the string has bytes, each loop stops because no white space
  is left at its end of the string, not because the rounds are used up.
\<close>

lemma leadingSpace_Nil: "leadingSpace [] = 0"
  by (simp add: leadingSpace_def spaceRunes_def)

lemma trailingSpace_Nil: "trailingSpace [] = 0"
  by (simp add: trailingSpace_def spaceRunes_def)

lemma trimLeft_done: "length s \<le> k \<Longrightarrow> leadingSpace (trimLeft k s) = 0"
proof (induction k arbitrary: s)
  case 0
  then show ?case by (simp add: leadingSpace_Nil)
next
  case (Suc k)
  show ?case
  proof (cases "leadingSpace s = 0")
    case True
    then show ?thesis by simp
  next
    case False
    with Suc.prems have "length (drop (leadingSpace s) s) \<le> k" by simp
    with False show ?thesis by (simp add: Suc.IH)
  qed
qed

lemma trimRight_done: "length s \<le> k \<Longrightarrow> trailingSpace (trimRight k s) = 0"
proof (induction k arbitrary: s)
  case 0
  then show ?case by (simp add: trailingSpace_Nil)
next
  case (Suc k)
  show ?case
  proof (cases "trailingSpace s = 0")
    case True
    then show ?thesis by simp
  next
    case False
    with Suc.prems have "length (take (length s - trailingSpace s) s) \<le> k" by simp
    with False show ?thesis by (simp add: Suc.IH)
  qed
qed

section \<open>Discount validity window\<close>

lemma NewDiscount_InrD:
  assumes "NewDiscount pct start end = Inr d"
  shows "startDate d = start" and "endDate d = end" and "start < end"
    and "\<exists>p. pct = Some p \<and> percentage d = Some p \<and> 0 < p \<and> p \<le> 100"
  using assms
  by (auto simp: NewDiscount_def Let_def Cmp_def After_def Zero_rat_def [symmetric]
      rat_number_collapse split: option.splits if_splits)

text \<open>
  C6. A discount built by \<open>NewDiscount\<close> for the period from \<open>start\<close> to \<open>end\<close> is valid
  at \<open>t\<close> exactly when \<open>start \<le> t < end\<close>: valid at \<open>start\<close> itself and strictly inside
  the period, not valid at \<open>end\<close>, nor before \<open>start\<close>, nor after \<open>end\<close>.
\<close>

theorem IsValidAt_half_open:
  assumes "NewDiscount pct start end = Inr d"
  shows "(IsValidAt (Some d) t \<longleftrightarrow> start \<le> t \<and> t < end)
    \<and> IsValidAt (Some d) start
    \<and> \<not> IsValidAt (Some d) end
    \<and> (start < t \<and> t < end \<longrightarrow> IsValidAt (Some d) t)
    \<and> (t < start \<longrightarrow> \<not> IsValidAt (Some d) t)
    \<and> (end < t \<longrightarrow> \<not> IsValidAt (Some d) t)"
  using NewDiscount_InrD(1-3) [OF assms]
  by (auto simp: IsValidAt_def Before_def)

theorem IsValidAt_half_open_witness:
  "NewDiscount (Some 15) 10 20 = Inr \<lparr>percentage = Some 15, startDate = 10, endDate = 20\<rparr>
   \<and> IsValidAt (Some \<lparr>percentage = Some 15, startDate = 10, endDate = 20\<rparr>) 10
   \<and> IsValidAt (Some \<lparr>percentage = Some 15, startDate = 10, endDate = 20\<rparr>) 15
   \<and> \<not> IsValidAt (Some \<lparr>percentage = Some 15, startDate = 10, endDate = 20\<rparr>) 20
   \<and> \<not> IsValidAt (Some \<lparr>percentage = Some 15, startDate = 10, endDate = 20\<rparr>) 5
   \<and> \<not> IsValidAt (Some \<lparr>percentage = Some 15, startDate = 10, endDate = 20\<rparr>) 25"
proof -
  have h: "NewDiscount (Some 15) 10 20
      = Inr \<lparr>percentage = Some 15, startDate = 10, endDate = 20\<rparr>"
    by (simp add: NewDiscount_def Let_def Cmp_def After_def rat_number_collapse)
  show ?thesis
    using h IsValidAt_half_open [OF h, of 15] IsValidAt_half_open [OF h, of 5]
      IsValidAt_half_open [OF h, of 25]
    by simp
qed

section \<open>Money values are compared as rationals\<close>

lemma NewMoney_total: "\<exists>m. NewMoney n d = Inr m"
  by (simp add: NewMoney_def NewRat_def Let_def)

text \<open>
  C7. For every numerator \<open>n\<close>, denominator \<open>d \<noteq> 0\<close> and scalar \<open>k \<noteq> 0\<close> whose
  products \<open>k * n\<close> and \<open>k * d\<close> are representable in an \<open>int64\<close> (the 64-bit product
  is the mathematical one), \<open>NewMoney(n, d)\<close> equals \<open>NewMoney(k * n, k * d)\<close>.
\<close>

theorem NewMoney_scale:
  fixes n d k :: int64
  assumes "d \<noteq> 0" and "k \<noteq> 0"
    and "sint (k * n) = sint k * sint n" and "sint (k * d) = sint k * sint d"
  shows "\<exists>a b. NewMoney n d = Inr a \<and> NewMoney (k * n) (k * d) = Inr b
     \<and> Equals (Some a) (Some b)"
proof -
  have kd: "k * d \<noteq> 0"
  proof
    assume "k * d = 0"
    then have "sint (k * d) = 0" by simp
    with assms(4) have "sint k * sint d = 0" by simp
    with assms(1,2) show False by (simp add: signed_eq_0_iff)
  qed
  have "Fract (sint (k * n)) (sint (k * d)) = Fract (sint n) (sint d)"
    using assms by (simp add: mult_rat_cancel signed_eq_0_iff)
  with kd assms(1) show ?thesis
    by (simp add: NewMoney_def NewRat_def Let_def Equals_def Amount_def Cmp_def)
qed

theorem NewMoney_scale_witness:
  "(100 :: int64) \<noteq> 0 \<and> (3 :: int64) \<noteq> 0
   \<and> sint (3 * 1999 :: int64) = sint (3 :: int64) * sint (1999 :: int64)
   \<and> sint (3 * 100 :: int64) = sint (3 :: int64) * sint (100 :: int64)
   \<and> (\<exists>a b. NewMoney 1999 100 = Inr a \<and> NewMoney (3 * 1999) (3 * 100) = Inr b
        \<and> Equals (Some a) (Some b))"
proof -
  have h1: "(100 :: int64) \<noteq> 0" and h2: "(3 :: int64) \<noteq> 0" by simp_all
  have h3: "sint (3 * 1999 :: int64) = sint (3 :: int64) * sint (1999 :: int64)" by simp
  have h4: "sint (3 * 100 :: int64) = sint (3 :: int64) * sint (100 :: int64)" by simp
  show ?thesis
    using h1 h2 h3 h4 NewMoney_scale [OF h1 h2 h3 h4] by blast
qed

text \<open>
  C8. For every numerator \<open>n\<close>, \<open>NewMoney(n, 0)\<close> does not panic and is the value
  \<open>NewMoney(n, 1)\<close>, the integer \<open>n\<close>: the zero denominator is replaced by 1.
\<close>

theorem NewMoney_zero_denominator:
  "NewMoney n 0 = NewMoney n 1
   \<and> (\<exists>m. NewMoney n 0 = Inr m \<and> NewMoney n 1 = Inr m
        \<and> amount m = Some (of_int (sint n)) \<and> Equals (Some m) (Some m))"
  by (simp add: NewMoney_def NewRat_def Let_def Equals_def Amount_def Cmp_def Fract_of_int_eq)

section \<open>The write plan counts the mutations it was given\<close>

lemma Count_Add: "Count (Add mut p) = (if mut = None then Count p else Count p + 1)"
  by (simp add: Count_def Add_def)

lemma Count_AddAll:
  "Count (AddAll muts p) = Count p + length (filter (\<lambda>mut. mut \<noteq> None) muts)"
  by (induction muts arbitrary: p) (simp_all add: Count_Add)

lemma Count_Clear: "Count (Clear p) = 0"
  by (simp add: Count_def Clear_def)

lemma Count_apply_calls: "Count (apply_calls cs p) = non_nil_added cs (Count p)"
proof (induction cs arbitrary: p)
  case Nil
  show ?case by simp
next
  case (Cons c cs)
  show ?case
    by (cases c) (simp_all add: Cons.IH Count_Add Count_AddAll Count_Clear)
qed

lemma apply_calls_then_Clear: "apply_calls (cs @ [CallClear]) p = Clear (apply_calls cs p)"
  by (induction cs arbitrary: p) simp_all

text \<open>
  C9. \<open>Add(nil)\<close> leaves the plan as it is. After any sequence of \<open>Add\<close>, \<open>AddAll\<close> and
  \<open>Clear\<close> calls on a new plan, or on a plan just cleared, \<open>Count()\<close> is the number of
  non-nil mutations added since the construction or the last \<open>Clear()\<close>. A plan is empty
  after \<open>Clear()\<close>, whatever was done to it before.
\<close>

theorem Plan_counts_non_nil:
  "Add None p = p
   \<and> Count (apply_calls cs NewPlan) = non_nil_added cs 0
   \<and> Count (apply_calls cs (Clear p)) = non_nil_added cs 0
   \<and> IsEmpty (Clear p)
   \<and> IsEmpty (apply_calls (cs @ [CallClear]) p)
   \<and> Count (apply_calls (cs @ [CallClear]) p) = 0"
  by (simp add: Count_apply_calls Count_Clear apply_calls_then_Clear Add_def)
    (simp add: Count_def NewPlan_def IsEmpty_def Clear_def)

section \<open>The aggregate's methods\<close>

lemmas status_defs = ProductStatusDraft_def ProductStatusActive_def
  ProductStatusInactive_def ProductStatusArchived_def

lemmas field_defs = FieldName_def FieldDescription_def FieldCategory_def
  FieldBasePrice_def FieldDiscount_def FieldStatus_def

lemmas space_defs = TrimSpace_def leadingSpace_def trailingSpace_def spaceRunes_def

subsection \<open>A refused call changes nothing\<close>

lemma Update_error:
  "fst (Update nm descr cat now p) \<noteq> None \<Longrightarrow> snd (Update nm descr cat now p) = p"
  by (simp add: Update_def Let_def split: if_splits)

lemma Activate_error: "fst (Activate now p) \<noteq> None \<Longrightarrow> snd (Activate now p) = p"
  by (simp add: Activate_def Let_def split: if_splits)

lemma Deactivate_error: "fst (Deactivate now p) \<noteq> None \<Longrightarrow> snd (Deactivate now p) = p"
  by (simp add: Deactivate_def Let_def split: if_splits)

lemma Archive_error: "fst (Archive now p) \<noteq> None \<Longrightarrow> snd (Archive now p) = p"
  by (simp add: Archive_def Let_def split: if_splits)

lemma ApplyDiscount_error:
  "fst (ApplyDiscount d now p) \<noteq> None \<Longrightarrow> snd (ApplyDiscount d now p) = p"
  by (simp add: ApplyDiscount_def Let_def split: if_splits)

lemma RemoveDiscount_error:
  "fst (RemoveDiscount now p) \<noteq> None \<Longrightarrow> snd (RemoveDiscount now p) = p"
  by (simp add: RemoveDiscount_def Let_def split: if_splits)

text \<open>
  C1. When a mutating method (\<open>Update\<close>, \<open>Activate\<close>, \<open>Deactivate\<close>, \<open>Archive\<close>,
  \<open>ApplyDiscount\<close>, \<open>RemoveDiscount\<close>) returns an error, the product is the one it was
  before the call: every field keeps its value (name, description, category, base
  price, discount, status, update and archive times), the change tracker marks no
  further field and the pending events are the same.
\<close>

theorem error_leaves_product:
  assumes "fst (invoke c p) \<noteq> None"
  shows "snd (invoke c p) = p"
  using assms
  by (cases c)
    (simp_all add: Update_error Activate_error Deactivate_error Archive_error
      ApplyDiscount_error RemoveDiscount_error)

theorem error_leaves_product_witness:
  "fst (invoke (CallUpdate ''  '' ''Better'' ''X'' 5) stored_widget) = Some ErrInvalidProductName
   \<and> snd (invoke (CallUpdate ''  '' ''Better'' ''X'' 5) stored_widget) = stored_widget
   \<and> fst (invoke (CallDeactivate 5) stored_widget) = Some ErrProductNotActive
   \<and> snd (invoke (CallDeactivate 5) stored_widget) = stored_widget"
proof -
  have h1: "fst (invoke (CallUpdate ''  '' ''Better'' ''X'' 5) stored_widget)
      = Some ErrInvalidProductName"
    by (simp add: Update_def stored_widget_def ReconstructProduct_def status_defs space_defs)
  have h2: "fst (invoke (CallDeactivate 5) stored_widget) = Some ErrProductNotActive"
    by (simp add: Deactivate_def CanDeactivate_def stored_widget_def ReconstructProduct_def
        status_defs)
  show ?thesis
    using h1 h2 error_leaves_product [of "CallUpdate ''  '' ''Better'' ''X'' 5" stored_widget]
      error_leaves_product [of "CallDeactivate 5" stored_widget]
    by simp
qed

subsection \<open>Archived is terminal\<close>

lemma invoke_archived:
  assumes "status p = ProductStatusArchived"
  shows "fst (invoke c p) \<noteq> None \<and> snd (invoke c p) = p"
  using assms
  by (cases c)
    (simp_all add: Update_def Activate_def Deactivate_def Archive_def ApplyDiscount_def
      RemoveDiscount_def status_defs)

text \<open>
  C2. On an archived product every call of a mutating method returns an error, and
  after any sequence of such calls the status is still Archived (the product is the
  one the sequence started from).
\<close>

theorem archived_is_terminal:
  assumes "status p = ProductStatusArchived"
  shows "status (snd (invoke_all cs p)) = ProductStatusArchived
    \<and> length (fst (invoke_all cs p)) = length cs
    \<and> None \<notin> set (fst (invoke_all cs p))
    \<and> snd (invoke_all cs p) = p"
proof (induction cs)
  case Nil
  show ?case using assms by simp
next
  case (Cons c cs)
  obtain e where e: "invoke c p = (e, p)" "e \<noteq> None"
    using invoke_archived [OF assms, of c] by (cases "invoke c p") auto
  with Cons show ?case
    by (auto split: prod.splits)
qed

theorem archived_is_terminal_witness:
  "status archived_widget = ProductStatusArchived
   \<and> invoke_all [CallUpdate ''Gadget'' ''New'' ''Y'' 5, CallActivate 6, CallDeactivate 7,
        CallArchive 8, CallApplyDiscount summer_sale 9, CallRemoveDiscount 10]
        archived_widget
     = ([Some ErrProductArchived, Some ErrProductArchived, Some ErrProductArchived,
         Some ErrProductArchived, Some ErrProductNotActive, Some ErrProductArchived],
        archived_widget)"
proof -
  have h: "status archived_widget = ProductStatusArchived"
    by (simp add: archived_widget_def ReconstructProduct_def)
  have e: "fst (invoke_all [CallUpdate ''Gadget'' ''New'' ''Y'' 5, CallActivate 6,
        CallDeactivate 7, CallArchive 8, CallApplyDiscount summer_sale 9,
        CallRemoveDiscount 10] archived_widget)
     = [Some ErrProductArchived, Some ErrProductArchived, Some ErrProductArchived,
         Some ErrProductArchived, Some ErrProductNotActive, Some ErrProductArchived]"
    by (simp add: h Update_def Activate_def Deactivate_def Archive_def ApplyDiscount_def
        RemoveDiscount_def status_defs)
  show ?thesis
    using h e archived_is_terminal [OF h, of "[CallUpdate ''Gadget'' ''New'' ''Y'' 5,
        CallActivate 6, CallDeactivate 7, CallArchive 8, CallApplyDiscount summer_sale 9,
        CallRemoveDiscount 10]"]
    by (simp add: prod_eq_iff)
qed

subsection \<open>The error of ApplyDiscount on an archived product\<close>

lemma ApplyDiscount_archived:
  assumes "status p = ProductStatusArchived"
  shows "ApplyDiscount d now p = (Some ErrProductNotActive, p)"
  using assms by (simp add: ApplyDiscount_def status_defs)

text \<open>
  C3. \<open>ApplyDiscount\<close> on an archived product is specified to return ProductArchived.
  The method tests \<open>status \<noteq> Active\<close> first, which an archived product satisfies, so the
  widget archived at time 2 gets ProductNotActive: the test for Archived that follows
  is never reached.
\<close>

theorem ApplyDiscount_archived_widget:
  "NewProduct ''p1'' ''Widget'' ''A widget'' ''X'' price_1999 1 = Inr new_widget
   \<and> fst (Archive 2 new_widget) = None
   \<and> status (snd (Archive 2 new_widget)) = ProductStatusArchived
   \<and> fst (ApplyDiscount summer_sale 3 (snd (Archive 2 new_widget))) = Some ErrProductNotActive
   \<and> fst (ApplyDiscount summer_sale 3 archived_widget) = Some ErrProductNotActive"
proof -
  have "NewProduct ''p1'' ''Widget'' ''A widget'' ''X'' price_1999 1 = Inr new_widget"
    by (simp add: NewProduct_def new_widget_def price_1999_def IsPositive_def Sign_def
        Let_def space_defs Fract_of_int_quotient)
  moreover have "status new_widget \<noteq> ProductStatusArchived"
    by (simp add: new_widget_def status_defs)
  then have "fst (Archive 2 new_widget) = None"
    and a: "status (snd (Archive 2 new_widget)) = ProductStatusArchived"
    by (simp_all add: Archive_def Let_def)
  moreover have "status archived_widget = ProductStatusArchived"
    by (simp add: archived_widget_def ReconstructProduct_def)
  ultimately show ?thesis
    using a by (simp add: ApplyDiscount_archived)
qed

subsection \<open>What the constructor marks and records\<close>

lemma Dirty_MarkDirty:
  "Dirty (MarkDirty f ct) g = (ct \<noteq> None \<and> (f = g \<or> Dirty ct g))"
  by (auto simp: Dirty_def MarkDirty_def Let_def split: option.splits)

lemma Dirty_New: "Dirty (Some NewChangeTracker) g = False"
  by (simp add: Dirty_def NewChangeTracker_def)

lemma MarkDirty_eq_None: "MarkDirty f ct = None \<longleftrightarrow> ct = None"
  by (simp add: MarkDirty_def Let_def split: option.splits)

lemma NewProduct_dirty:
  assumes "NewProduct ident nm descr cat price now = Inr p"
  shows "Dirty (changes p) f \<longleftrightarrow>
    f \<in> {FieldName, FieldDescription, FieldCategory, FieldBasePrice, FieldStatus}"
proof -
  have "changes p = MarkAllDirty
      [FieldName, FieldDescription, FieldCategory, FieldBasePrice, FieldStatus]
      (Some NewChangeTracker)"
    using assms by (auto simp: NewProduct_def Let_def split: if_splits)
  then show ?thesis
    by (auto simp: Dirty_MarkDirty Dirty_New MarkDirty_eq_None)
qed

lemma NewProduct_created:
  assumes "NewProduct ident nm descr cat price now = Inr p"
  shows "events p = [NewProductCreatedEvent ident (TrimSpace nm) (TrimSpace descr)
         (TrimSpace cat) price now]"
    and "map EventType (events p) = [''product.created'']"
    and "status p = ProductStatusDraft"
    and "discount p = None"
  using assms
  by (auto simp: NewProduct_def Let_def NewProductCreatedEvent_def split: if_splits)

text \<open>
  C4. A product that \<open>NewProduct\<close> returns is specified to have each of its six tracked
  fields marked dirty, and one pending event, of type created, with status Draft. The
  widget built at time 1 has the one created event and the status Draft, and name,
  description, category, base price and status are dirty; the discount field is not:
  the constructor, whose comment says that it marks all fields, leaves
  \<open>FieldDiscount\<close> out of the list it marks.
\<close>

theorem NewProduct_widget_discount_not_dirty:
  "NewProduct ''p1'' ''Widget'' ''A widget'' ''X'' price_1999 1 = Inr new_widget
   \<and> map (Dirty (changes new_widget))
        [FieldName, FieldDescription, FieldCategory, FieldBasePrice, FieldDiscount,
         FieldStatus]
     = [True, True, True, True, False, True]
   \<and> map EventType (events new_widget) = [''product.created'']
   \<and> status new_widget = ProductStatusDraft"
proof -
  have n: "NewProduct ''p1'' ''Widget'' ''A widget'' ''X'' price_1999 1 = Inr new_widget"
    by (simp add: NewProduct_def new_widget_def price_1999_def IsPositive_def Sign_def
        Let_def space_defs Fract_of_int_quotient)
  have "FieldDiscount \<notin>
      {FieldName, FieldDescription, FieldCategory, FieldBasePrice, FieldStatus}"
    by (simp add: field_defs)
  then show ?thesis
    using n NewProduct_created(2,3) [OF n] by (simp add: NewProduct_dirty [OF n])
qed

subsection \<open>Update without a change\<close>



text \<open>The texts of a product stay named: the constructor names them, the methods keep them.\<close>

lemma named_NewProduct: "NewProduct ident nm descr cat price now = Inr p \<Longrightarrow> named p"
  by (auto simp: NewProduct_def Let_def named_def split: if_splits)

lemma named_Update: "named p \<Longrightarrow> named (snd (Update nm descr cat now p))"
  by (simp add: Update_def Let_def named_def)

lemma names_kept:
  "name (snd (Activate now p)) = name p"
  "category (snd (Activate now p)) = category p"
  "name (snd (Deactivate now p)) = name p"
  "category (snd (Deactivate now p)) = category p"
  "name (snd (Archive now p)) = name p"
  "category (snd (Archive now p)) = category p"
  "name (snd (ApplyDiscount d now p)) = name p"
  "category (snd (ApplyDiscount d now p)) = category p"
  "name (snd (RemoveDiscount now p)) = name p"
  "category (snd (RemoveDiscount now p)) = category p"
  by (simp_all add: Activate_def Deactivate_def Archive_def ApplyDiscount_def
      RemoveDiscount_def Let_def)

lemma named_perform: "named p \<Longrightarrow> named (perform a p)"
proof (cases a)
  case (Business c)
  assume "named p"
  then show ?thesis using Business
    by (cases c) (simp_all add: named_Update, simp_all add: named_def names_kept)
next
  case EventsCleared
  assume "named p"
  then show ?thesis using EventsCleared by (simp add: named_def ClearEvents_def)
qed

lemma named_perform_all: "named p \<Longrightarrow> named (perform_all as p)"
  by (induction as arbitrary: p) (simp_all add: named_perform)

text \<open>
  \<open>ReconstructProduct\<close> checks nothing: the product it returns is named exactly when the
  name and the category of the row are not empty.
\<close>

lemma named_ReconstructProduct:
  "named (ReconstructProduct ident nm descr cat price disc st created updated archived)
     \<longleftrightarrow> nm \<noteq> [] \<and> cat \<noteq> []"
  by (simp add: named_def ReconstructProduct_def)

lemma Update_unnamed:
  assumes "status p \<noteq> ProductStatusArchived" and "TrimSpace nm = name p"
    and "TrimSpace cat = category p"
  shows "fst (Update nm descr cat now p) =
    (if name p = [] then Some ErrInvalidProductName
     else if category p = [] then Some ErrInvalidProductCategory else None)"
  using assms by (simp add: Update_def Let_def split: if_splits prod.splits)




subsection \<open>The archive time\<close>

lemma archivedAt_invoke:
  "archivedAt (snd (invoke c p)) =
     (case c of
        CallArchive t \<Rightarrow> if status p = ProductStatusArchived then archivedAt p else Some t
      | _ \<Rightarrow> archivedAt p)"
  by (cases c)
    (simp_all add: Update_def Activate_def Deactivate_def Archive_def ApplyDiscount_def
      RemoveDiscount_def Let_def)

lemma status_invoke:
  "status (snd (invoke c p)) = ProductStatusArchived \<longleftrightarrow>
     status p = ProductStatusArchived \<or> (\<exists>t. c = CallArchive t)"
  by (cases c)
    (auto simp: Update_def Activate_def Deactivate_def Archive_def ApplyDiscount_def
      RemoveDiscount_def Let_def status_defs)

lemma archived_iff_perform: "archived_iff p \<Longrightarrow> archived_iff (perform a p)"
proof (cases a)
  case (Business c)
  assume "archived_iff p"
  then show ?thesis
    unfolding Business archived_iff_def perform.simps status_invoke archivedAt_invoke
    by (cases c) auto
next
  case EventsCleared
  assume "archived_iff p"
  then show ?thesis using EventsCleared by (simp add: archived_iff_def ClearEvents_def)
qed

lemma archived_iff_perform_all: "archived_iff p \<Longrightarrow> archived_iff (perform_all as p)"
  by (induction as arbitrary: p) (simp_all add: archived_iff_perform)

lemma archivedAt_perform_changes:
  assumes "archivedAt (perform a q) \<noteq> archivedAt q"
  shows "\<exists>t. a = Business (CallArchive t) \<and> fst (Archive t q) = None
    \<and> archivedAt (perform a q) = Some t"
proof (cases a)
  case (Business c)
  with assms have "archivedAt (snd (invoke c q)) \<noteq> archivedAt q" by simp
  then obtain t where "c = CallArchive t" and "status q \<noteq> ProductStatusArchived"
    unfolding archivedAt_invoke by (cases c) (auto split: if_splits)
  then show ?thesis using Business by (simp add: Archive_def Let_def)
next
  case EventsCleared
  with assms show ?thesis by (simp add: ClearEvents_def)
qed

lemma archivedAt_never_cleared:
  "archivedAt q \<noteq> None \<Longrightarrow> archivedAt (perform a q) \<noteq> None"
  using archivedAt_perform_changes [of a q] by fastforce

text \<open>
  C10. A product that \<open>NewProduct\<close> returns has no archive time. After any sequence of
  method calls on it (the six mutating methods, whatever they return, and
  \<open>ClearEvents\<close>), the archive time is set if and only if the status is Archived. On any
  product, a call that changes the archive time is a successful \<open>Archive(t)\<close>, which sets
  it to \<open>t\<close>, and no call clears an archive time that is set.
\<close>

theorem archivedAt_iff_archived:
  assumes "NewProduct ident nm descr cat price now = Inr p0"
  shows "archivedAt p0 = None
    \<and> (archivedAt (perform_all as p0) \<noteq> None
        \<longleftrightarrow> status (perform_all as p0) = ProductStatusArchived)
    \<and> (archivedAt (perform a q) \<noteq> archivedAt q \<longrightarrow>
        (\<exists>t. a = Business (CallArchive t) \<and> fst (Archive t q) = None
           \<and> archivedAt (perform a q) = Some t))
    \<and> (archivedAt q \<noteq> None \<longrightarrow> archivedAt (perform a q) \<noteq> None)"
proof -
  have p0: "archivedAt p0 = None" "status p0 = ProductStatusDraft"
    using assms by (auto simp: NewProduct_def Let_def split: if_splits)
  then have "archived_iff p0" by (simp add: archived_iff_def status_defs)
  then have "archived_iff (perform_all as p0)" by (rule archived_iff_perform_all)
  then show ?thesis
    using p0(1) archivedAt_perform_changes [of a q] archivedAt_never_cleared [of q a]
    by (simp add: archived_iff_def)
qed

theorem archivedAt_iff_archived_witness:
  "NewProduct ''p1'' ''Widget'' ''A widget'' ''X'' price_1999 1 = Inr new_widget
   \<and> archivedAt new_widget = None
   \<and> status (perform_all [Business (CallActivate 2), EventsCleared] new_widget)
       = ProductStatusActive
   \<and> archivedAt (perform_all [Business (CallActivate 2), EventsCleared] new_widget) = None
   \<and> status (perform_all [Business (CallActivate 2), EventsCleared,
        Business (CallArchive 3), Business (CallActivate 4)] new_widget)
       = ProductStatusArchived
   \<and> archivedAt (perform_all [Business (CallActivate 2), EventsCleared,
        Business (CallArchive 3), Business (CallActivate 4)] new_widget) = Some 3"
proof -
  have n: "NewProduct ''p1'' ''Widget'' ''A widget'' ''X'' price_1999 1 = Inr new_widget"
    by (simp add: NewProduct_def new_widget_def price_1999_def IsPositive_def Sign_def
        Let_def space_defs Fract_of_int_quotient)
  have s1: "status (perform_all [Business (CallActivate 2), EventsCleared] new_widget)
      = ProductStatusActive"
    by (simp add: Activate_def CanActivate_def ClearEvents_def Let_def new_widget_def
        status_defs)
  have s2: "status (perform_all [Business (CallActivate 2), EventsCleared,
        Business (CallArchive 3), Business (CallActivate 4)] new_widget)
      = ProductStatusArchived"
    by (simp add: Activate_def Archive_def CanActivate_def ClearEvents_def Let_def
        new_widget_def status_defs)
  have a2: "archivedAt (perform_all [Business (CallActivate 2), EventsCleared,
        Business (CallArchive 3), Business (CallActivate 4)] new_widget) = Some 3"
    by (simp add: Activate_def Archive_def CanActivate_def ClearEvents_def Let_def
        new_widget_def status_defs)
  have "ProductStatusActive \<noteq> ProductStatusArchived" by (simp add: status_defs)
  then show ?thesis
    using n s1 s2 a2
      archivedAt_iff_archived [OF n, of "[Business (CallActivate 2), EventsCleared]"]
    by simp
qed

end
